theory Spec2Isabelle
  imports Main "HOL-Library.Log_Nat"
begin

section \<open>Python values used by the program\<close>

text \<open>
  Strings are \<open>string\<close>; one \<open>char\<close> stands for one code point of a Python \<open>str\<close>
  (the code points below 256). Python's \<open>int\<close> is \<open>int\<close>. A Python \<open>float\<close> is an
  IEEE double; it is modelled by the rational number it denotes, and every float operation
  is the exact operation followed by \<open>rnd64\<close>, rounding to the nearest number with a
  53-bit significand, ties to the even significand. The exponent range of doubles
  (overflow to infinity, subnormal numbers) is not modelled.
\<close>

datatype py_error = ZeroDivisionError | KeyError | OSError

definition round_half_even :: "rat \<Rightarrow> int" where
  "round_half_even x =
     (let f = \<lfloor>x\<rfloor>; d = x - of_int f
      in if d < 1 / 2 then f
         else if 1 / 2 < d then f + 1
         else if even f then f else f + 1)"

text \<open>\<open>binade x\<close> is the exponent \<open>e\<close> with \<open>2^e \<le> |x| < 2^(e+1)\<close>, for \<open>x \<noteq> 0\<close>.\<close>

definition binade :: "rat \<Rightarrow> int" where
  "binade x =
     (let (p, q) = quotient_of \<bar>x\<bar>;
          e = bitlen p - bitlen q
      in if 2 powi e \<le> \<bar>x\<bar> then e else e - 1)"

definition rnd64 :: "rat \<Rightarrow> rat" where
  "rnd64 x =
     (if x = 0 then 0
      else let q = 2 powi (binade x - 52)
           in of_int (round_half_even (x / q)) * q)"

text \<open>\<open>float(i)\<close> for an int, as Python converts the int operand of a mixed operation.\<close>

definition py_float :: "int \<Rightarrow> rat" where
  "py_float i = rnd64 (of_int i)"

definition fadd :: "rat \<Rightarrow> rat \<Rightarrow> rat" where
  "fadd a b = rnd64 (a + b)"

definition fmul :: "rat \<Rightarrow> rat \<Rightarrow> rat" where
  "fmul a b = rnd64 (a * b)"

text \<open>\<open>a / b\<close> on floats raises \<open>ZeroDivisionError\<close> for a zero divisor.\<close>

definition fdiv :: "rat \<Rightarrow> rat \<Rightarrow> py_error + rat" where
  "fdiv a b = (if b = 0 then Inl ZeroDivisionError else Inr (rnd64 (a / b)))"

text \<open>\<open>int(x)\<close> on a float truncates toward zero.\<close>

definition py_int :: "rat \<Rightarrow> int" where
  "py_int x = (if 0 \<le> x then \<lfloor>x\<rfloor> else \<lceil>x\<rceil>)"

text \<open>A \<open>dict\<close> literal is an association list; \<open>d.get(k, default)\<close> and \<open>d[k]\<close>.\<close>

definition dict_get :: "('k \<times> 'v) list \<Rightarrow> 'k \<Rightarrow> 'v \<Rightarrow> 'v" where
  "dict_get d k dflt = (case map_of d k of None \<Rightarrow> dflt | Some v \<Rightarrow> v)"

definition dict_getitem :: "('k \<times> 'v) list \<Rightarrow> 'k \<Rightarrow> py_error + 'v" where
  "dict_getitem d k = (case map_of d k of None \<Rightarrow> Inl KeyError | Some v \<Rightarrow> Inr v)"

section \<open>The world outside the program\<close>

text \<open>
  The state the program reads and changes through the wrapped libraries and the operating
  system: the files on disk (a path maps to the size of its file) and the \<open>rate\<close> and
  \<open>volume\<close> properties of the pyttsx3 engine object (the rate is an int, as
  \<open>_apply_style\<close> sets it; the volume is a float).
\<close>

record world =
  files :: "string \<rightharpoonup> nat"
  rate :: int
  volume :: rat

section \<open>Style and intensity to engine parameters\<close>

text \<open>
  Both adapters compute \<open>0.5 + (intensity / 100.0)\<close>: \<open>intensity_scale\<close> in
  \<open>CoquiTTSEngine._get_style_params\<close>, \<open>intensity_factor\<close> in
  \<open>PyttsxEngine._apply_style\<close>. The divisor is the literal \<open>100.0\<close>, so the
  division cannot raise.
\<close>

definition intensity_scale :: "int \<Rightarrow> rat" where
  "intensity_scale intensity = fadd (1 / 2) (rnd64 (py_float intensity / 100))"

definition intensity_factor :: "int \<Rightarrow> rat" where
  "intensity_factor intensity = fadd (1 / 2) (rnd64 (py_float intensity / 100))"

text \<open>
  \<open>CoquiTTSEngine._get_style_params\<close>. The dict literal \<open>style_configs\<close> is built
  whole before the lookup, so \<open>0.8 / intensity_scale\<close> is evaluated for every style and
  raises when the scale is zero. The float literals \<open>1.1\<close>, \<open>0.8\<close>, \<open>0.9\<close> are
  the doubles nearest to them.
\<close>

definition get_style_params :: "string \<Rightarrow> int \<Rightarrow> py_error + (string \<times> rat) list" where
  "get_style_params style intensity =
     (let scale = intensity_scale intensity
      in case fdiv (rnd64 (4 / 5)) scale of
           Inl e \<Rightarrow> Inl e
         | Inr somber_speed \<Rightarrow>
             Inr (dict_get
                   [(''neutral'', []),
                    (''enthusiastic'', [(''speed'', fmul (rnd64 (11 / 10)) scale)]),
                    (''somber'', [(''speed'', somber_speed)]),
                    (''confident'', [(''speed'', fmul 1 scale)]),
                    (''authoritative'', [(''speed'', fmul (rnd64 (9 / 10)) scale)])]
                   style []))"

record style_config =
  rate_mult :: rat
  volume_mult :: rat

definition pyttsx_style_configs :: "(string \<times> style_config) list" where
  "pyttsx_style_configs =
     [(''neutral'', \<lparr>rate_mult = 1, volume_mult = 1\<rparr>),
      (''enthusiastic'', \<lparr>rate_mult = rnd64 (13 / 10), volume_mult = rnd64 (12 / 10)\<rparr>),
      (''somber'', \<lparr>rate_mult = rnd64 (7 / 10), volume_mult = rnd64 (8 / 10)\<rparr>),
      (''confident'', \<lparr>rate_mult = rnd64 (11 / 10), volume_mult = rnd64 (11 / 10)\<rparr>),
      (''authoritative'', \<lparr>rate_mult = rnd64 (9 / 10), volume_mult = 1\<rparr>)]"

text \<open>
  \<open>PyttsxEngine._apply_style\<close>: reads the engine's current \<open>rate\<close> and \<open>volume\<close>
  and sets new ones. The default of the lookup is \<open>style_configs["neutral"]\<close>.
\<close>

definition apply_style :: "world \<Rightarrow> string \<Rightarrow> int \<Rightarrow> py_error + world" where
  "apply_style w style intensity =
     (let base_rate = rate w;
          base_volume = volume w;
          factor = intensity_factor intensity
      in case dict_getitem pyttsx_style_configs ''neutral'' of
           Inl e \<Rightarrow> Inl e
         | Inr neutral \<Rightarrow>
             (let config = dict_get pyttsx_style_configs style neutral;
                  new_rate = py_int (fmul (fmul (py_float base_rate) (rate_mult config)) factor);
                  new_volume = min 1 (fmul (fmul base_volume (volume_mult config)) factor)
              in Inr (w\<lparr>rate := new_rate, volume := new_volume\<rparr>)))"

section \<open>The engine adapters\<close>

text \<open>
  What the wrapped libraries do is not code of the program, so it is a parameter: each
  library call takes the world and returns whether it came back without raising, and the
  world it left. \<open>tts_to_file\<close> is the Coqui call; \<open>select_voice\<close> stands for the
  pyttsx3 calls made by \<open>PyttsxEngine._select_voice\<close>; \<open>save_and_run\<close> for
  \<open>save_to_file\<close> followed by \<open>runAndWait\<close>.
\<close>

record libs =
  tts_to_file :: "string \<Rightarrow> string \<Rightarrow> (string \<times> rat) list \<Rightarrow> world \<Rightarrow> bool \<times> world"
  select_voice :: "string \<Rightarrow> world \<Rightarrow> bool \<times> world"
  save_and_run :: "string \<Rightarrow> string \<Rightarrow> world \<Rightarrow> bool \<times> world"

text \<open>The keyword arguments the callers pass on to the adapters.\<close>

record kwargs =
  kw_style :: string
  kw_intensity :: int
  kw_voice :: "string option"
  kw_speed :: "rat option"

datatype engine_id = Coqui | Pyttsx3

fun engine_name :: "engine_id \<Rightarrow> string" where
  "engine_name Coqui = ''coqui''"
| "engine_name Pyttsx3 = ''pyttsx3''"

text \<open>
  \<open>CoquiTTSEngine.synthesize\<close>: \<open>False\<close> at once when the engine is unavailable;
  otherwise every exception of the body, the \<open>ZeroDivisionError\<close> of the style mapping
  included, is caught and gives \<open>False\<close>.
\<close>

definition coqui_synthesize ::
  "libs \<Rightarrow> bool \<Rightarrow> string \<Rightarrow> string \<Rightarrow> kwargs \<Rightarrow> world \<Rightarrow> bool \<times> world" where
  "coqui_synthesize L available text output_path kw w =
     (if \<not> available then (False, w)
      else case get_style_params (kw_style kw) (kw_intensity kw) of
             Inl e \<Rightarrow> (False, w)
           | Inr style_params \<Rightarrow> tts_to_file L text output_path style_params w)"

text \<open>\<open>PyttsxEngine.synthesize\<close>.\<close>

definition pyttsx_synthesize ::
  "libs \<Rightarrow> bool \<Rightarrow> string \<Rightarrow> string \<Rightarrow> kwargs \<Rightarrow> world \<Rightarrow> bool \<times> world" where
  "pyttsx_synthesize L available text output_path kw w =
     (if \<not> available then (False, w)
      else let (voice_ok, w1) =
                 (case kw_voice kw of None \<Rightarrow> (True, w) | Some v \<Rightarrow> select_voice L v w)
           in if \<not> voice_ok then (False, w1)
              else case apply_style w1 (kw_style kw) (kw_intensity kw) of
                     Inl e \<Rightarrow> (False, w1)
                   | Inr w2 \<Rightarrow> save_and_run L text output_path w2)"

section \<open>The dual-engine coordinator\<close>

record dual_tts_system =
  coqui_available :: bool
  pyttsx_available :: bool
  primary :: engine_id
  fallback :: "engine_id option"

text \<open>
  \<open>DualTTSSystem.__init__\<close>, from the availability the two adapters found when they
  were constructed. \<open>None\<close> is \<open>sys.exit(1)\<close>.
\<close>

definition DualTTSSystem_init :: "bool \<Rightarrow> bool \<Rightarrow> dual_tts_system option" where
  "DualTTSSystem_init coqui_ok pyttsx_ok =
     (if coqui_ok
      then Some \<lparr>coqui_available = coqui_ok, pyttsx_available = pyttsx_ok,
                 primary = Coqui, fallback = Some Pyttsx3\<rparr>
      else if pyttsx_ok
      then Some \<lparr>coqui_available = coqui_ok, pyttsx_available = pyttsx_ok,
                 primary = Pyttsx3, fallback = None\<rparr>
      else None)"

definition engine_synthesize ::
  "libs \<Rightarrow> dual_tts_system \<Rightarrow> engine_id \<Rightarrow> string \<Rightarrow> string \<Rightarrow> kwargs \<Rightarrow> world
     \<Rightarrow> bool \<times> world" where
  "engine_synthesize L sys e text output_path kw w =
     (case e of
        Coqui \<Rightarrow> coqui_synthesize L (coqui_available sys) text output_path kw w
      | Pyttsx3 \<Rightarrow> pyttsx_synthesize L (pyttsx_available sys) text output_path kw w)"

text \<open>The engine selection of \<open>DualTTSSystem.synthesize\<close>; \<open>None\<close> is the unknown engine.\<close>

definition select_engine :: "dual_tts_system \<Rightarrow> string \<Rightarrow> engine_id option" where
  "select_engine sys engine =
     (if engine = ''auto'' then Some (primary sys)
      else if engine = ''coqui''
      then (if \<not> coqui_available sys then Some Pyttsx3 else Some Coqui)
      else if engine = ''pyttsx3'' then Some Pyttsx3
      else None)"

text \<open>
  The result of a request: the value returned, the adapters whose \<open>synthesize\<close> was
  invoked, in order, and the world afterwards.
\<close>

record outcome =
  success :: bool
  invoked :: "engine_id list"
  world_after :: world

text \<open>\<open>DualTTSSystem.synthesize\<close>.\<close>

definition synthesize ::
  "libs \<Rightarrow> dual_tts_system \<Rightarrow> string \<Rightarrow> string \<Rightarrow> string \<Rightarrow> kwargs \<Rightarrow> world \<Rightarrow> outcome" where
  "synthesize L sys text output_path engine kw w =
     (case select_engine sys engine of
        None \<Rightarrow> \<lparr>success = False, invoked = [], world_after = w\<rparr>
      | Some selected_engine \<Rightarrow>
          (let (ok, w1) = engine_synthesize L sys selected_engine text output_path kw w
           in case fallback sys of
                None \<Rightarrow> \<lparr>success = ok, invoked = [selected_engine], world_after = w1\<rparr>
              | Some fb \<Rightarrow>
                  if \<not> ok \<and> selected_engine = primary sys
                  then (let (ok2, w2) = engine_synthesize L sys fb text output_path kw w1
                        in \<lparr>success = ok2, invoked = [selected_engine, fb], world_after = w2\<rparr>)
                  else \<lparr>success = ok, invoked = [selected_engine], world_after = w1\<rparr>))"

section \<open>The request boundary\<close>

text \<open>
  \<open>str.strip()\<close> removes leading and trailing whitespace; the whitespace code points below
  256 are 9 to 13, 28 to 32, 133 and 160.
\<close>

definition isspace :: "char \<Rightarrow> bool" where
  "isspace c = (of_char c \<in> {9, 10, 11, 12, 13, 28, 29, 30, 31, 32, 133, 160 :: nat})"

definition strip :: "string \<Rightarrow> string" where
  "strip s = rev (dropWhile isspace (rev (dropWhile isspace s)))"

text \<open>
  What the operating system answers: whether \<open>mkdir(parents=True, exist_ok=True)\<close>,
  \<open>touch()\<close> and \<open>stat()\<close> return without raising.
\<close>

record os_env =
  mkdir_ok :: bool
  touch_ok :: bool
  stat_ok :: bool

record tts_request =
  req_text :: string
  req_style :: string
  req_intensity :: int
  req_engine :: string
  req_voice :: "string option"
  req_speed :: "rat option"

definition request_kwargs :: "tts_request \<Rightarrow> kwargs" where
  "request_kwargs r =
     \<lparr>kw_style = req_style r, kw_intensity = req_intensity r,
      kw_voice = req_voice r, kw_speed = req_speed r\<rparr>"

datatype http_exn = HTTPException nat | OtherException py_error

record tts_response =
  message :: string
  audio_url :: "string option"
  task_id :: "string option"

record http_outcome =
  response :: "http_exn + tts_response"
  http_invoked :: "engine_id list"
  http_world :: world

text \<open>
  The body of the \<open>try\<close> of \<open>synthesize_speech\<close>. \<open>filename\<close> is the generated
  name (time stamp and random suffix).
\<close>

definition synthesize_speech_try ::
  "libs \<Rightarrow> os_env \<Rightarrow> dual_tts_system \<Rightarrow> string \<Rightarrow> tts_request \<Rightarrow> world \<Rightarrow> http_outcome" where
  "synthesize_speech_try L env sys filename r w =
     (if strip (req_text r) = []
      then \<lparr>response = Inl (HTTPException 400), http_invoked = [], http_world = w\<rparr>
      else if length (req_text r) > 1000
      then \<lparr>response = Inl (HTTPException 400), http_invoked = [], http_world = w\<rparr>
      else if \<not> mkdir_ok env
      then \<lparr>response = Inl (OtherException OSError), http_invoked = [], http_world = w\<rparr>
      else let output_path = ''static/audio/'' @ filename;
               res = synthesize L sys (req_text r) output_path (req_engine r) (request_kwargs r) w
           in if success res \<and> files (world_after res) output_path \<noteq> None
              then \<lparr>response = Inr \<lparr>message = ''Speech synthesized successfully'',
                                   audio_url = Some (''/static/audio/'' @ filename),
                                   task_id = None\<rparr>,
                    http_invoked = invoked res, http_world = world_after res\<rparr>
              else \<lparr>response = Inl (HTTPException 500),
                    http_invoked = invoked res, http_world = world_after res\<rparr>)"

text \<open>
  \<open>synthesize_speech\<close>: the handler \<open>except Exception\<close> catches every exception of the
  body, the \<open>HTTPException\<close>s with status 400 among them, and raises an
  \<open>HTTPException\<close> with status 500.
\<close>

definition synthesize_speech ::
  "libs \<Rightarrow> os_env \<Rightarrow> dual_tts_system \<Rightarrow> string \<Rightarrow> tts_request \<Rightarrow> world \<Rightarrow> http_outcome" where
  "synthesize_speech L env sys filename r w =
     (let res = synthesize_speech_try L env sys filename r w
      in case response res of
           Inl e \<Rightarrow> res\<lparr>response := Inl (HTTPException 500)\<rparr>
         | Inr ok \<Rightarrow> res)"

subsection \<open>Background tasks\<close>

datatype task_status = Pending | Processing | Completed | Failed

record task =
  status :: task_status
  progress :: nat
  created_at :: nat
  request :: tts_request
  result :: "(string \<times> nat) option"
  error :: "string option"

type_synonym task_storage = "string \<rightharpoonup> task"

record async_outcome =
  async_response :: "http_exn + tts_response"
  async_storage :: task_storage
  queued :: "(string \<times> tts_request) option"

text \<open>
  \<open>synthesize_speech_async\<close>. \<open>tid\<close> is the generated task id, \<open>now\<close> the clock.
  The handler invokes no engine: it stores the task and queues \<open>process_async_synthesis\<close>.
  As in \<open>synthesize_speech\<close>, the 400 raised for an empty text is caught by the
  handler's own \<open>except Exception\<close> and leaves as a 500.
\<close>

definition synthesize_speech_async ::
  "string \<Rightarrow> nat \<Rightarrow> tts_request \<Rightarrow> task_storage \<Rightarrow> async_outcome" where
  "synthesize_speech_async tid now r store =
     (if strip (req_text r) = []
      then \<lparr>async_response = Inl (HTTPException 500), async_storage = store, queued = None\<rparr>
      else \<lparr>async_response = Inr \<lparr>message = ''Task queued for processing'',
                                    audio_url = None, task_id = Some tid\<rparr>,
            async_storage = store(tid \<mapsto> \<lparr>status = Pending, progress = 0, created_at = now,
                                          request = r, result = None, error = None\<rparr>),
            queued = Some (tid, r)\<rparr>)"

definition update_task :: "task_storage \<Rightarrow> string \<Rightarrow> (task \<Rightarrow> task) \<Rightarrow> task_storage" where
  "update_task store tid f = (case store tid of None \<Rightarrow> store | Some t \<Rightarrow> store(tid \<mapsto> f t))"

definition task_failed :: "string \<Rightarrow> task \<Rightarrow> task" where
  "task_failed msg t = t\<lparr>status := Failed, progress := 100, error := Some msg\<rparr>"

definition task_completed :: "string \<Rightarrow> nat \<Rightarrow> task \<Rightarrow> task" where
  "task_completed url sz t = t\<lparr>status := Completed, progress := 100, result := Some (url, sz)\<rparr>"

text \<open>
  The result of the background task: the task storage after each of its writes, in order,
  the adapters invoked and the world afterwards. \<open>uncaught\<close> is the \<open>KeyError\<close> that
  leaves the function when the task record is missing: the handler looks the record up
  again.
\<close>

record task_outcome =
  storages :: "task_storage list"
  task_invoked :: "engine_id list"
  task_world :: world
  uncaught :: bool

definition process_async_synthesis ::
  "libs \<Rightarrow> os_env \<Rightarrow> dual_tts_system \<Rightarrow> string \<Rightarrow> string \<Rightarrow> tts_request \<Rightarrow> task_storage
     \<Rightarrow> world \<Rightarrow> task_outcome" where
  "process_async_synthesis L env sys filename tid r store w =
     (case store tid of
        None \<Rightarrow> \<lparr>storages = [], task_invoked = [], task_world = w, uncaught = True\<rparr>
      | Some t0 \<Rightarrow>
          (let s1 = update_task store tid (\<lambda>t. t\<lparr>status := Processing\<rparr>);
               s2 = update_task s1 tid (\<lambda>t. t\<lparr>progress := 10\<rparr>)
           in if \<not> mkdir_ok env
              then \<lparr>storages = [s1, s2, update_task s2 tid (task_failed ''OSError'')],
                    task_invoked = [], task_world = w, uncaught = False\<rparr>
              else
                (let s3 = update_task s2 tid (\<lambda>t. t\<lparr>progress := 30\<rparr>);
                     output_path = ''static/audio/'' @ filename;
                     res = synthesize L sys (req_text r) output_path (req_engine r)
                             (request_kwargs r) w;
                     final =
                       (case (if success res then files (world_after res) output_path else None) of
                          None \<Rightarrow> task_failed ''Speech synthesis failed''
                        | Some sz \<Rightarrow>
                            if stat_ok env
                            then task_completed (''/static/audio/'' @ filename) sz
                            else task_failed ''OSError'')
                 in \<lparr>storages = [s1, s2, s3, update_task s3 tid final],
                     task_invoked = invoked res, task_world = world_after res,
                     uncaught = False\<rparr>)))"

text \<open>The status a poll of \<open>get_task_status\<close> reports; \<open>None\<close> is the 404.\<close>

definition get_task_status :: "task_storage \<Rightarrow> string \<Rightarrow> task_status option" where
  "get_task_status store tid = map_option status (store tid)"

text \<open>
  An asynchronous request from acceptance to the end of its background task: the task
  storage after each write of the system.
\<close>

definition async_request_storages ::
  "libs \<Rightarrow> os_env \<Rightarrow> dual_tts_system \<Rightarrow> string \<Rightarrow> string \<Rightarrow> nat \<Rightarrow> tts_request \<Rightarrow> task_storage
     \<Rightarrow> world \<Rightarrow> task_storage list" where
  "async_request_storages L env sys filename tid now r store w =
     (let a = synthesize_speech_async tid now r store
      in case queued a of
           None \<Rightarrow> []
         | Some (tid', r') \<Rightarrow>
             async_storage a
               # storages (process_async_synthesis L env sys filename tid' r' (async_storage a) w))"

text \<open>The task part of \<open>cleanup_old_files\<close>: records created more than an hour ago go.\<close>

definition cleanup_tasks :: "int \<Rightarrow> task_storage \<Rightarrow> task_storage" where
  "cleanup_tasks now store =
     (\<lambda>tid. case store tid of
               None \<Rightarrow> None
             | Some t \<Rightarrow> if int (created_at t) < now - 3600 then None else Some t)"

text \<open>
  The statuses that polls of \<open>get_task_status\<close> report, one poll at each of the given
  storages (a poll that finds no record reports none).
\<close>

definition status_history :: "task_storage list \<Rightarrow> string \<Rightarrow> task_status list" where
  "status_history ss tid = List.map_filter (\<lambda>s. get_task_status s tid) ss"

fun status_rank :: "task_status \<Rightarrow> nat" where
  "status_rank Pending = 0"
| "status_rank Processing = 1"
| "status_rank Completed = 2"
| "status_rank Failed = 2"

subsection \<open>The command line\<close>

record cli_args =
  arg_text :: "string option"
  arg_output :: "string option"
  arg_style :: string
  arg_intensity :: int
  arg_engine :: string
  arg_voice :: "string option"
  arg_list_voices :: bool
  arg_status :: bool

datatype cli_exit = Exit nat | Uncaught py_error

record cli_outcome =
  exit_code :: cli_exit
  cli_invoked :: "engine_id list"
  cli_world :: world

text \<open>
  \<open>validate_inputs\<close>: \<open>touch()\<close> creates the output file, empty, when it does not
  exist. An error of \<open>mkdir\<close> is outside the \<open>try\<close> and leaves the function.
\<close>

definition validate_inputs :: "os_env \<Rightarrow> string \<Rightarrow> string \<Rightarrow> world \<Rightarrow> (py_error + bool) \<times> world" where
  "validate_inputs env text output_path w =
     (if strip text = [] then (Inr False, w)
      else if \<not> mkdir_ok env then (Inl OSError, w)
      else if touch_ok env
      then (Inr True,
            (case files w output_path of
               None \<Rightarrow> w\<lparr>files := (files w)(output_path \<mapsto> 0)\<rparr>
             | Some sz \<Rightarrow> w))
      else (Inr False, w))"

text \<open>
  \<open>main\<close>, after \<open>argparse\<close> has read the arguments: \<open>parse_args\<close> refuses a style or
  an engine outside its choices with exit status 2, as \<open>parser.error\<close> does.
  \<open>coqui_ok\<close> and \<open>pyttsx_ok\<close> are what the adapters find when \<open>DualTTSSystem()\<close>
  constructs them.
\<close>

definition main ::
  "libs \<Rightarrow> os_env \<Rightarrow> bool \<Rightarrow> bool \<Rightarrow> cli_args \<Rightarrow> world \<Rightarrow> cli_outcome" where
  "main L env coqui_ok pyttsx_ok a w =
     (if arg_style a \<notin> set [''neutral'', ''enthusiastic'', ''somber'', ''confident'', ''authoritative'']
         \<or> arg_engine a \<notin> set [''auto'', ''coqui'', ''pyttsx3'']
      then \<lparr>exit_code = Exit 2, cli_invoked = [], cli_world = w\<rparr>
      else case DualTTSSystem_init coqui_ok pyttsx_ok of
        None \<Rightarrow> \<lparr>exit_code = Exit 1, cli_invoked = [], cli_world = w\<rparr>
      | Some tts_system \<Rightarrow>
          if arg_status a then \<lparr>exit_code = Exit 0, cli_invoked = [], cli_world = w\<rparr>
          else if arg_list_voices a then \<lparr>exit_code = Exit 0, cli_invoked = [], cli_world = w\<rparr>
          else case (arg_text a, arg_output a) of
            (Some text, Some output) \<Rightarrow>
              if text = [] \<or> output = []
              then \<lparr>exit_code = Exit 2, cli_invoked = [], cli_world = w\<rparr>
              else if \<not> (0 \<le> arg_intensity a \<and> arg_intensity a \<le> 100)
              then \<lparr>exit_code = Exit 2, cli_invoked = [], cli_world = w\<rparr>
              else (case validate_inputs env text output w of
                      (Inl e, w1) \<Rightarrow> \<lparr>exit_code = Uncaught e, cli_invoked = [], cli_world = w1\<rparr>
                    | (Inr False, w1) \<Rightarrow> \<lparr>exit_code = Exit 1, cli_invoked = [], cli_world = w1\<rparr>
                    | (Inr True, w1) \<Rightarrow>
                        (let res = synthesize L tts_system text output (arg_engine a)
                                     \<lparr>kw_style = arg_style a, kw_intensity = arg_intensity a,
                                      kw_voice = arg_voice a, kw_speed = None\<rparr> w1
                         in \<lparr>exit_code = (if success res then Exit 0 else Exit 1),
                             cli_invoked = invoked res, cli_world = world_after res\<rparr>))
          | _ \<Rightarrow> \<lparr>exit_code = Exit 2, cli_invoked = [], cli_world = w\<rparr>)"

section \<open>Example worlds and libraries\<close>

definition world0 :: world where
  "world0 = \<lparr>files = Map.empty, rate = 200, volume = 1\<rparr>"

text \<open>Libraries whose every call raises and leaves the world as it is.\<close>

definition libs_failing :: libs where
  "libs_failing =
     \<lparr>tts_to_file = (\<lambda>text path params w. (False, w)),
      select_voice = (\<lambda>v w. (False, w)),
      save_and_run = (\<lambda>text path w. (False, w))\<rparr>"

text \<open>Libraries whose every call returns, the synthesis calls having written a file.\<close>

definition libs_working :: libs where
  "libs_working =
     \<lparr>tts_to_file = (\<lambda>text path params w. (True, w\<lparr>files := (files w)(path \<mapsto> 44 + length text)\<rparr>)),
      select_voice = (\<lambda>v w. (True, w)),
      save_and_run = (\<lambda>text path w. (True, w\<lparr>files := (files w)(path \<mapsto> 44 + length text)\<rparr>))\<rparr>"

definition both_engines :: dual_tts_system where
  "both_engines =
     \<lparr>coqui_available = True, pyttsx_available = True, primary = Coqui, fallback = Some Pyttsx3\<rparr>"

definition pyttsx_only :: dual_tts_system where
  "pyttsx_only =
     \<lparr>coqui_available = False, pyttsx_available = True, primary = Pyttsx3, fallback = None\<rparr>"

definition coqui_only :: dual_tts_system where
  "coqui_only =
     \<lparr>coqui_available = True, pyttsx_available = False, primary = Coqui, fallback = Some Pyttsx3\<rparr>"

definition plain_kwargs :: kwargs where
  "plain_kwargs = \<lparr>kw_style = ''neutral'', kw_intensity = 50, kw_voice = None, kw_speed = None\<rparr>"

definition hello_request :: tts_request where
  "hello_request =
     \<lparr>req_text = ''Hello'', req_style = ''neutral'', req_intensity = 50, req_engine = ''auto'',
      req_voice = None, req_speed = None\<rparr>"

definition all_ok :: os_env where
  "all_ok = \<lparr>mkdir_ok = True, touch_ok = True, stat_ok = True\<rparr>"

definition hello_args :: cli_args where
  "hello_args =
     \<lparr>arg_text = Some ''Hello'', arg_output = Some ''out.wav'', arg_style = ''neutral'',
      arg_intensity = 50, arg_engine = ''auto'', arg_voice = None,
      arg_list_voices = False, arg_status = False\<rparr>"

section \<open>Rounding to double precision\<close>

lemma round_half_even_close: "\<bar>of_int (round_half_even y) - y\<bar> \<le> 1 / 2"
proof -
  have lo: "of_int \<lfloor>y\<rfloor> \<le> y" by simp
  have hi: "y < of_int \<lfloor>y\<rfloor> + 1" by linarith
  show ?thesis
    unfolding round_half_even_def Let_def
    using lo hi by (auto simp: abs_le_iff)
qed

lemma round_half_even_of_int: "round_half_even (of_int m) = m"
  by (simp add: round_half_even_def)

lemma binade_bounds:
  assumes "x \<noteq> 0"
  shows "2 powi (binade x) \<le> \<bar>x\<bar> \<and> \<bar>x\<bar> < 2 powi (binade x + 1)"
proof -
  obtain p q where pq: "quotient_of \<bar>x\<bar> = (p, q)" by force
  have q0: "0 < q" using quotient_of_denom_pos [OF pq] .
  have xq: "\<bar>x\<bar> = of_int p / of_int q" using quotient_of_div [OF pq] .
  have p0: "0 < p"
  proof -
    have "0 < \<bar>x\<bar>" using assms by simp
    then show ?thesis using q0 xq by (simp add: zero_less_divide_iff)
  qed
  define a where "a = nat (bitlen p)"
  define b where "b = nat (bitlen q)"
  have a0: "0 < a"
    unfolding a_def using p0 bitlen_eq_zero_iff [of p] bitlen_nonneg [of p] by simp
  have b0: "0 < b"
    unfolding b_def using q0 bitlen_eq_zero_iff [of q] bitlen_nonneg [of q] by simp
  have na: "nat (bitlen p - 1) = a - 1" unfolding a_def by arith
  have nb: "nat (bitlen q - 1) = b - 1" unfolding b_def by arith
  have pa: "2 ^ (a - 1) \<le> p \<and> p < 2 ^ a"
    using bitlen_bounds [OF p0] unfolding na by (simp add: a_def)
  have qb: "2 ^ (b - 1) \<le> q \<and> q < 2 ^ b"
    using bitlen_bounds [OF q0] unfolding nb by (simp add: b_def)
  have pr: "(2::rat) ^ (a - 1) \<le> of_int p \<and> (of_int p :: rat) < 2 ^ a"
  proof -
    have "of_int (2 ^ (a - 1)) \<le> (of_int p :: rat) \<and> (of_int p :: rat) < of_int (2 ^ a)"
      using pa by (simp only: of_int_le_iff of_int_less_iff)
    then show ?thesis by simp
  qed
  have qr: "(2::rat) ^ (b - 1) \<le> of_int q \<and> (of_int q :: rat) < 2 ^ b"
  proof -
    have "of_int (2 ^ (b - 1)) \<le> (of_int q :: rat) \<and> (of_int q :: rat) < of_int (2 ^ b)"
      using qb by (simp only: of_int_le_iff of_int_less_iff)
    then show ?thesis by simp
  qed
  define e where "e = int a - int b"
  have up: "\<bar>x\<bar> < 2 powi (e + 1)"
  proof -
    have "of_int p / of_int q < (2::rat) ^ a / 2 ^ (b - 1)"
      using pr qr p0 by (intro frac_less) auto
    also have "(2::rat) ^ a / 2 ^ (b - 1) = 2 powi (int a - int (b - 1))"
      by (simp add: power_int_diff)
    also have "int a - int (b - 1) = e + 1"
      using b0 by (simp add: e_def)
    finally show ?thesis using xq by simp
  qed
  have low: "2 powi (e - 1) < \<bar>x\<bar>"
  proof -
    have "(2::rat) ^ (a - 1) / 2 ^ b < of_int p / of_int q"
      using pr qr q0 by (intro frac_less2) auto
    moreover have "(2::rat) ^ (a - 1) / 2 ^ b = 2 powi (int (a - 1) - int b)"
      by (simp add: power_int_diff)
    moreover have "int (a - 1) - int b = e - 1"
      using a0 by (simp add: e_def)
    ultimately show ?thesis using xq by simp
  qed
  have "bitlen p - bitlen q = e"
    using bitlen_nonneg [of p] bitlen_nonneg [of q] by (simp add: e_def a_def b_def)
  then have bin: "binade x = (if 2 powi e \<le> \<bar>x\<bar> then e else e - 1)"
    unfolding binade_def pq by (simp add: Let_def)
  show ?thesis
  proof (cases "2 powi e \<le> \<bar>x\<bar>")
    case True
    then show ?thesis using bin up by simp
  next
    case False
    then show ?thesis using bin low by simp
  qed
qed

lemma binade_less:
  assumes "x \<noteq> 0" and "\<bar>x\<bar> < 2 powi k"
  shows "binade x < k"
proof (rule ccontr)
  assume "\<not> binade x < k"
  then have "k \<le> binade x" by simp
  then have "(2::rat) powi k \<le> 2 powi (binade x)"
    by (intro power_int_increasing) auto
  with binade_bounds [OF assms(1)] assms(2) show False by simp
qed

text \<open>The rounding error is at most half a unit in the last place.\<close>

lemma rnd64_error:
  assumes "x \<noteq> 0"
  shows "\<bar>rnd64 x - x\<bar> \<le> 2 powi (binade x - 53)"
proof -
  define q :: rat where "q = 2 powi (binade x - 52)"
  have q0: "0 < q" by (simp add: q_def)
  have "\<bar>of_int (round_half_even (x / q)) - x / q\<bar> \<le> 1 / 2"
    by (rule round_half_even_close)
  then have "\<bar>of_int (round_half_even (x / q)) - x / q\<bar> * q \<le> 1 / 2 * q"
    using q0 by (intro mult_right_mono) auto
  moreover have "\<bar>of_int (round_half_even (x / q)) - x / q\<bar> * q
      = \<bar>of_int (round_half_even (x / q)) * q - x\<bar>"
  proof -
    have "\<bar>of_int (round_half_even (x / q)) - x / q\<bar> * q
        = \<bar>(of_int (round_half_even (x / q)) - x / q) * q\<bar>"
      using q0 by (simp add: abs_mult)
    also have "(of_int (round_half_even (x / q)) - x / q) * q
        = of_int (round_half_even (x / q)) * q - x"
      using q0 by (simp add: algebra_simps)
    finally show ?thesis .
  qed
  moreover have "1 / 2 * q = 2 powi (binade x - 53)"
  proof -
    have "(2::rat) powi ((binade x - 52) - 1) = 2 powi (binade x - 52) / 2 powi 1"
      by (rule power_int_diff) simp
    then show ?thesis by (simp add: q_def)
  qed
  moreover have "rnd64 x = of_int (round_half_even (x / q)) * q"
    using assms by (simp add: rnd64_def q_def Let_def)
  ultimately show ?thesis by simp
qed

lemma rnd64_error_below_2:
  assumes "\<bar>x\<bar> < 2"
  shows "\<bar>rnd64 x - x\<bar> \<le> 1 / 2 ^ 53"
proof (cases "x = 0")
  case True
  then show ?thesis by (simp add: rnd64_def)
next
  case False
  have "\<bar>x\<bar> < 2 powi 1" using assms by simp
  then have "binade x < 1" using False by (intro binade_less)
  then have "binade x - 53 \<le> - 53" by simp
  then have "(2::rat) powi (binade x - 53) \<le> 2 powi (- 53)"
    by (intro power_int_increasing) auto
  also have "(2::rat) powi (- 53) = 1 / 2 ^ 53"
    by (simp add: power_int_def field_simps)
  finally show ?thesis using rnd64_error [OF False] by linarith
qed

text \<open>Integers of magnitude below \<open>2^53\<close> are doubles: rounding leaves them as they are.\<close>

lemma rnd64_of_int:
  assumes "\<bar>n\<bar> < 2 ^ 53"
  shows "rnd64 (of_int n) = of_int n"
proof (cases "n = 0")
  case True
  then show ?thesis by (simp add: rnd64_def)
next
  case False
  define x :: rat where "x = of_int n"
  have x0: "x \<noteq> 0" using False by (simp add: x_def)
  have "\<bar>x\<bar> = of_int \<bar>n\<bar>" by (simp add: x_def)
  also have "(of_int \<bar>n\<bar> :: rat) < of_int (2 ^ 53)"
    using assms by (simp only: of_int_less_iff)
  also have "(of_int (2 ^ 53) :: rat) = 2 powi 53" by simp
  finally have "binade x < 53" using x0 by (intro binade_less)
  define k where "k = nat (52 - binade x)"
  have kb: "binade x - 52 = - int k" using \<open>binade x < 53\<close> by (simp add: k_def)
  have q: "(2::rat) powi (binade x - 52) = 1 / 2 ^ k"
    by (simp add: kb power_int_minus field_simps)
  have "x / (1 / 2 ^ k) = of_int (n * 2 ^ k)" by (simp add: x_def)
  then have "round_half_even (x / (1 / 2 ^ k)) = n * 2 ^ k"
    by (simp only: round_half_even_of_int)
  then have "rnd64 x = of_int (n * 2 ^ k) * (1 / 2 ^ k)"
    using x0 by (simp add: rnd64_def q Let_def)
  then show ?thesis by (simp add: x_def)
qed

lemma py_float_exact: "\<bar>n\<bar> < 2 ^ 53 \<Longrightarrow> py_float n = of_int n"
  by (simp add: py_float_def rnd64_of_int)

lemma rnd64_half: "rnd64 (1 / 2) = 1 / 2"
  by code_simp

lemma rnd64_three_halves: "rnd64 (3 / 2) = 3 / 2"
  by code_simp

lemma rnd64_0: "rnd64 0 = 0"
  by (simp add: rnd64_def)

lemma rnd64_1: "rnd64 1 = 1"
  using rnd64_of_int [of 1] by simp

section \<open>Properties of the style mapping\<close>

lemma intensity_factor_eq: "intensity_factor i = intensity_scale i"
  by (simp add: intensity_factor_def intensity_scale_def)

lemma intensity_scale_0: "intensity_scale 0 = 1 / 2"
  using py_float_exact [of 0] by (simp add: intensity_scale_def fadd_def rnd64_half rnd64_0)

lemma intensity_scale_50: "intensity_scale 50 = 1"
  using py_float_exact [of 50] by (simp add: intensity_scale_def fadd_def rnd64_half rnd64_1)

lemma intensity_scale_100: "intensity_scale 100 = 3 / 2"
  using py_float_exact [of 100] by (simp add: intensity_scale_def fadd_def rnd64_1 rnd64_three_halves)

lemma intensity_scale_near_line:
  assumes "0 \<le> i" and "i \<le> 100"
  shows "\<bar>intensity_scale i - (1 / 2 + of_int i / 100)\<bar> \<le> 1 / 2 ^ 52"
proof -
  define u :: rat where "u = 1 / 2 ^ 53"
  have u: "0 < u" "u \<le> 1 / 4" "2 * u = 1 / 2 ^ 52" by (simp_all add: u_def)
  define x :: rat where "x = of_int i / 100"
  define t where "t = rnd64 x"
  define s where "s = rnd64 (1 / 2 + t)"
  have x01: "0 \<le> x" "x \<le> 1" using assms by (simp_all add: x_def)
  have pf: "py_float i = of_int i"
    using assms by (intro py_float_exact) simp
  have "\<bar>x\<bar> < 2" using x01 by simp
  then have e1: "\<bar>t - x\<bar> \<le> u"
    unfolding t_def u_def by (rule rnd64_error_below_2)
  have "\<bar>1 / 2 + t\<bar> < 2" using e1 x01 u by linarith
  then have e2: "\<bar>s - (1 / 2 + t)\<bar> \<le> u"
    unfolding s_def u_def by (rule rnd64_error_below_2)
  have "intensity_scale i = s"
    by (simp add: intensity_scale_def fadd_def pf t_def x_def s_def)
  moreover have "\<bar>s - (1 / 2 + x)\<bar> \<le> 2 * u" using e1 e2 by linarith
  ultimately show ?thesis by (simp only: u x_def)
qed

lemma intensity_scale_pos:
  assumes "0 \<le> i" and "i \<le> 100"
  shows "0 < intensity_scale i"
proof -
  have "(1::rat) / 2 ^ 52 \<le> 1 / 4" by simp
  moreover have "(0::rat) \<le> of_int i / 100" using assms by simp
  ultimately show ?thesis using intensity_scale_near_line [OF assms] by linarith
qed

text \<open>
  C4. A style that is not a key of the adapters' style tables gets, at every intensity,
  exactly the parameters of the style \<open>neutral\<close>: the same Coqui parameter dict (or the
  same error) and the same new pyttsx3 rate and volume. The keys of both tables are
  styles of the fixed enumeration, so this holds of every style outside it.
\<close>

theorem unknown_style_maps_as_neutral:
  assumes "style \<notin> {''neutral'', ''enthusiastic'', ''somber'', ''confident'', ''authoritative''}"
  shows "get_style_params style intensity = get_style_params ''neutral'' intensity
       \<and> apply_style w style intensity = apply_style w ''neutral'' intensity"
  using assms
  by (simp add: get_style_params_def apply_style_def dict_get_def dict_getitem_def
      pyttsx_style_configs_def Let_def split: sum.splits)

theorem unknown_style_maps_as_neutral_witness:
  "''happy'' \<notin> {''neutral'', ''enthusiastic'', ''somber'', ''confident'', ''authoritative''}
 \<and> get_style_params ''happy'' 80 = get_style_params ''neutral'' 80
 \<and> apply_style world0 ''happy'' 80 = apply_style world0 ''neutral'' 80"
  using unknown_style_maps_as_neutral [of "''happy''" 80 world0]
  by simp

text \<open>
  C5. The multiplier is \<open>0.5 + intensity / 100.0\<close> in double arithmetic. In both adapters
  it is exactly 0.5 at intensity 0 and exactly 1.5 at intensity 100, and at every intensity
  from 0 to 100 it is within one unit in the last place (\<open>2^-52\<close>) of the straight line
  through these two points.
\<close>

theorem intensity_multiplier_endpoints:
  "intensity_scale 0 = 1 / 2 \<and> intensity_scale 100 = 3 / 2
 \<and> intensity_factor 0 = 1 / 2 \<and> intensity_factor 100 = 3 / 2
 \<and> (\<forall>i\<in>{0..100}. \<bar>intensity_scale i - (1 / 2 + of_int i / 100)\<bar> \<le> 1 / 2 ^ 52
                  \<and> \<bar>intensity_factor i - (1 / 2 + of_int i / 100)\<bar> \<le> 1 / 2 ^ 52)"
  using intensity_scale_near_line
  by (simp add: intensity_factor_eq intensity_scale_0 intensity_scale_100)

theorem intensity_multiplier_endpoints_witness:
  "(50::int) \<in> {0..100} \<and> \<bar>intensity_scale 50 - 1\<bar> \<le> 1 / 2 ^ 52
 \<and> \<bar>intensity_factor 50 - 1\<bar> \<le> 1 / 2 ^ 52"
proof -
  have "(50::int) \<in> {0..100}" by simp
  with intensity_multiplier_endpoints
  have "\<bar>intensity_scale 50 - (1 / 2 + of_int 50 / 100)\<bar> \<le> 1 / 2 ^ 52
      \<and> \<bar>intensity_factor 50 - (1 / 2 + of_int 50 / 100)\<bar> \<le> 1 / 2 ^ 52"
    by blast
  then show ?thesis by simp
qed

section \<open>Properties of the coordinator\<close>

lemma apply_style_result:
  "apply_style w style i =
     Inr (w\<lparr>rate := py_int (fmul (fmul (py_float (rate w))
                 (rate_mult (dict_get pyttsx_style_configs style \<lparr>rate_mult = 1, volume_mult = 1\<rparr>)))
                 (intensity_factor i)),
           volume := min 1 (fmul (fmul (volume w)
                 (volume_mult (dict_get pyttsx_style_configs style \<lparr>rate_mult = 1, volume_mult = 1\<rparr>)))
                 (intensity_factor i))\<rparr>)"
  by (simp add: apply_style_def dict_getitem_def pyttsx_style_configs_def Let_def)

lemma get_style_params_neutral_50: "get_style_params ''neutral'' 50 = Inr []"
  by (simp add: get_style_params_def intensity_scale_50 fdiv_def dict_get_def)

lemma init_cases:
  assumes "DualTTSSystem_init coqui_ok pyttsx_ok = Some sys"
  shows "(coqui_available sys \<and> primary sys = Coqui \<and> fallback sys = Some Pyttsx3)
       \<or> (\<not> coqui_available sys \<and> pyttsx_available sys \<and> primary sys = Pyttsx3 \<and> fallback sys = None)"
  using assms by (auto simp: DualTTSSystem_init_def split: if_splits)

lemma invoked_at_most_two: "length (invoked (synthesize L sys text path engine kw w)) \<le> 2"
  by (simp add: synthesize_def Let_def split: option.splits prod.splits)

lemma synthesize_selected:
  assumes "select_engine sys engine = Some e"
      and "engine_synthesize L sys e text path kw w = (ok, w1)"
  shows "synthesize L sys text path engine kw w =
           (case fallback sys of
              None \<Rightarrow> \<lparr>success = ok, invoked = [e], world_after = w1\<rparr>
            | Some fb \<Rightarrow>
                if \<not> ok \<and> e = primary sys
                then \<lparr>success = fst (engine_synthesize L sys fb text path kw w1),
                      invoked = [e, fb],
                      world_after = snd (engine_synthesize L sys fb text path kw w1)\<rparr>
                else \<lparr>success = ok, invoked = [e], world_after = w1\<rparr>)"
  using assms by (simp add: synthesize_def Let_def split: option.splits prod.splits)

text \<open>
  C1. When the selected engine is the primary and its \<open>synthesize\<close> returned failure:
  with a fallback engine, the coordinator makes exactly one more call, on the fallback,
  and returns its result; with no fallback it returns failure after the single call.
  No request invokes more than two adapters, and the fallback that
  \<open>DualTTSSystem.__init__\<close> sets is never the primary itself.
\<close>

theorem primary_failure_single_fallback:
  "length (invoked (synthesize L sys text path engine kw w)) \<le> 2
 \<and> (select_engine sys engine = Some (primary sys)
      \<and> engine_synthesize L sys (primary sys) text path kw w = (False, w1) \<longrightarrow>
      (case fallback sys of
         Some fb \<Rightarrow>
           synthesize L sys text path engine kw w =
             \<lparr>success = fst (engine_synthesize L sys fb text path kw w1),
              invoked = [primary sys, fb],
              world_after = snd (engine_synthesize L sys fb text path kw w1)\<rparr>
       | None \<Rightarrow>
           synthesize L sys text path engine kw w =
             \<lparr>success = False, invoked = [primary sys], world_after = w1\<rparr>))
 \<and> (DualTTSSystem_init coqui_ok pyttsx_ok = Some sys \<longrightarrow> fallback sys \<noteq> Some (primary sys))"
proof (intro conjI impI)
  show "length (invoked (synthesize L sys text path engine kw w)) \<le> 2"
    by (rule invoked_at_most_two)
next
  assume a: "select_engine sys engine = Some (primary sys)
        \<and> engine_synthesize L sys (primary sys) text path kw w = (False, w1)"
  then have s: "select_engine sys engine = Some (primary sys)"
    and e: "engine_synthesize L sys (primary sys) text path kw w = (False, w1)"
    by simp_all
  from synthesize_selected [OF s e] show "case fallback sys of
         Some fb \<Rightarrow>
           synthesize L sys text path engine kw w =
             \<lparr>success = fst (engine_synthesize L sys fb text path kw w1),
              invoked = [primary sys, fb],
              world_after = snd (engine_synthesize L sys fb text path kw w1)\<rparr>
       | None \<Rightarrow>
           synthesize L sys text path engine kw w =
             \<lparr>success = False, invoked = [primary sys], world_after = w1\<rparr>"
    by (simp split: option.splits)
next
  assume "DualTTSSystem_init coqui_ok pyttsx_ok = Some sys"
  then show "fallback sys \<noteq> Some (primary sys)"
    using init_cases by fastforce
qed

theorem primary_failure_single_fallback_witness:
  "DualTTSSystem_init True True = Some both_engines
 \<and> select_engine both_engines ''auto'' = Some (primary both_engines)
 \<and> engine_synthesize libs_failing both_engines (primary both_engines) ''Hello'' ''out.wav''
      plain_kwargs world0 = (False, world0)
 \<and> fallback both_engines = Some Pyttsx3
 \<and> success (synthesize libs_failing both_engines ''Hello'' ''out.wav'' ''auto'' plain_kwargs world0) = False
 \<and> invoked (synthesize libs_failing both_engines ''Hello'' ''out.wav'' ''auto'' plain_kwargs world0)
      = [Coqui, Pyttsx3]
 \<and> fallback both_engines \<noteq> Some (primary both_engines)"
proof -
  have i: "DualTTSSystem_init True True = Some both_engines"
    by (simp add: DualTTSSystem_init_def both_engines_def)
  have s: "select_engine both_engines ''auto'' = Some (primary both_engines)"
    by (simp add: select_engine_def)
  have p: "engine_synthesize libs_failing both_engines (primary both_engines) ''Hello'' ''out.wav''
      plain_kwargs world0 = (False, world0)"
    by (simp add: engine_synthesize_def both_engines_def coqui_synthesize_def plain_kwargs_def
        get_style_params_neutral_50 libs_failing_def)
  have f: "fallback both_engines = Some Pyttsx3" by (simp add: both_engines_def)
  have q: "fst (engine_synthesize libs_failing both_engines Pyttsx3 ''Hello'' ''out.wav''
      plain_kwargs world0) = False"
    by (simp add: engine_synthesize_def both_engines_def pyttsx_synthesize_def plain_kwargs_def
        apply_style_result libs_failing_def)
  have pr: "primary both_engines = Coqui" by (simp add: both_engines_def)
  from primary_failure_single_fallback
    [of libs_failing both_engines "''Hello''" "''out.wav''" "''auto''" plain_kwargs world0 world0 True True]
  show ?thesis using i s p f q pr by simp
qed

text \<open>
  C10. An engine selector other than \<open>auto\<close>, \<open>coqui\<close> and \<open>pyttsx3\<close> makes the
  coordinator return \<open>False\<close>: no adapter is invoked and the world is as before.
\<close>

theorem unknown_engine_returns_false:
  assumes "engine \<notin> {''auto'', ''coqui'', ''pyttsx3''}"
  shows "synthesize L sys text path engine kw w = \<lparr>success = False, invoked = [], world_after = w\<rparr>"
  using assms by (simp add: synthesize_def select_engine_def)

theorem unknown_engine_returns_false_witness:
  "''espeak'' \<notin> {''auto'', ''coqui'', ''pyttsx3''}
 \<and> synthesize libs_working both_engines ''Hello'' ''out.wav'' ''espeak'' plain_kwargs world0
     = \<lparr>success = False, invoked = [], world_after = world0\<rparr>"
  using unknown_engine_returns_false
    [of "''espeak''" libs_working both_engines "''Hello''" "''out.wav''" plain_kwargs world0]
  by simp

text \<open>
  C2, as stated, fails: when Coqui is unavailable the primary is pyttsx3 and the non-primary
  engine is Coqui; a request that names \<open>coqui\<close> is then served by the pyttsx3 adapter,
  not by the engine it names.
\<close>

theorem named_non_primary_counterexample:
  "DualTTSSystem_init False True = Some pyttsx_only
 \<and> ''coqui'' \<noteq> engine_name (primary pyttsx_only)
 \<and> invoked (synthesize libs_failing pyttsx_only ''Hello'' ''out.wav'' ''coqui'' plain_kwargs world0)
     = [Pyttsx3]
 \<and> engine_name Pyttsx3 \<noteq> ''coqui''"
  by (simp add: DualTTSSystem_init_def pyttsx_only_def synthesize_def select_engine_def
      engine_synthesize_def pyttsx_synthesize_def plain_kwargs_def apply_style_result
      libs_failing_def)

text \<open>
  C2, amended. In a system built by \<open>DualTTSSystem.__init__\<close>, a request that names the
  engine that is not the primary gets exactly one \<open>synthesize\<close> invocation and no
  fallback call, whatever that invocation returns. The invocation is on the pyttsx3
  adapter: the named engine when the request names \<open>pyttsx3\<close>, the substitute for the
  unavailable Coqui when it names \<open>coqui\<close>.
\<close>

theorem named_non_primary_no_fallback:
  assumes "DualTTSSystem_init coqui_ok pyttsx_ok = Some sys"
      and "engine = ''coqui'' \<or> engine = ''pyttsx3''"
      and "engine \<noteq> engine_name (primary sys)"
  shows "synthesize L sys text path engine kw w =
           \<lparr>success = fst (engine_synthesize L sys Pyttsx3 text path kw w),
            invoked = [Pyttsx3],
            world_after = snd (engine_synthesize L sys Pyttsx3 text path kw w)\<rparr>"
proof -
  obtain ok w1 where r: "engine_synthesize L sys Pyttsx3 text path kw w = (ok, w1)"
    by (cases "engine_synthesize L sys Pyttsx3 text path kw w")
  from init_cases [OF assms(1)] show ?thesis
  proof
    assume c: "coqui_available sys \<and> primary sys = Coqui \<and> fallback sys = Some Pyttsx3"
    with assms(2,3) have "engine = ''pyttsx3''" by auto
    then have "select_engine sys engine = Some Pyttsx3" by (simp add: select_engine_def)
    from synthesize_selected [OF this r] show ?thesis using c r by simp
  next
    assume c: "\<not> coqui_available sys \<and> pyttsx_available sys \<and> primary sys = Pyttsx3
             \<and> fallback sys = None"
    with assms(2,3) have "engine = ''coqui''" by auto
    then have "select_engine sys engine = Some Pyttsx3" using c by (simp add: select_engine_def)
    from synthesize_selected [OF this r] show ?thesis using c r by simp
  qed
qed

theorem named_non_primary_no_fallback_witness:
  "DualTTSSystem_init True True = Some both_engines
 \<and> ''pyttsx3'' \<noteq> engine_name (primary both_engines)
 \<and> success (synthesize libs_failing both_engines ''Hello'' ''out.wav'' ''pyttsx3'' plain_kwargs world0)
     = False
 \<and> invoked (synthesize libs_failing both_engines ''Hello'' ''out.wav'' ''pyttsx3'' plain_kwargs world0)
     = [Pyttsx3]"
proof -
  have i: "DualTTSSystem_init True True = Some both_engines"
    by (simp add: DualTTSSystem_init_def both_engines_def)
  have n: "''pyttsx3'' \<noteq> engine_name (primary both_engines)"
    by (simp add: both_engines_def)
  have q: "fst (engine_synthesize libs_failing both_engines Pyttsx3 ''Hello'' ''out.wav''
      plain_kwargs world0) = False"
    by (simp add: engine_synthesize_def both_engines_def pyttsx_synthesize_def plain_kwargs_def
        apply_style_result libs_failing_def)
  have e: "''pyttsx3'' = ''coqui'' \<or> ''pyttsx3'' = ''pyttsx3''" by simp
  from named_non_primary_no_fallback [OF i e n]
  have "synthesize libs_failing both_engines ''Hello'' ''out.wav'' ''pyttsx3'' plain_kwargs world0 =
           \<lparr>success = fst (engine_synthesize libs_failing both_engines Pyttsx3 ''Hello'' ''out.wav'' plain_kwargs world0),
            invoked = [Pyttsx3],
            world_after = snd (engine_synthesize libs_failing both_engines Pyttsx3 ''Hello'' ''out.wav'' plain_kwargs world0)\<rparr>" .
  then show ?thesis using i n q by simp
qed

text \<open>
  C3, as stated, fails for \<open>pyttsx3\<close>: with Coqui available and pyttsx3 unavailable, a
  request that names \<open>pyttsx3\<close> selects the pyttsx3 adapter all the same; its
  \<open>synthesize\<close> returns \<open>False\<close>, Coqui is never invoked and the request fails, though
  the Coqui library would have worked.
\<close>

theorem unavailable_engine_counterexample:
  "DualTTSSystem_init True False = Some coqui_only
 \<and> \<not> pyttsx_available coqui_only \<and> coqui_available coqui_only
 \<and> select_engine coqui_only ''pyttsx3'' \<noteq> Some Coqui
 \<and> synthesize libs_working coqui_only ''Hello'' ''out.wav'' ''pyttsx3'' plain_kwargs world0
     = \<lparr>success = False, invoked = [Pyttsx3], world_after = world0\<rparr>
 \<and> Coqui \<notin> set (invoked
       (synthesize libs_working coqui_only ''Hello'' ''out.wav'' ''pyttsx3'' plain_kwargs world0))"
  by (simp add: DualTTSSystem_init_def coqui_only_def synthesize_def select_engine_def
      engine_synthesize_def pyttsx_synthesize_def)

text \<open>
  C3, amended. A request that names \<open>coqui\<close> while Coqui's availability flag is false
  gets the pyttsx3 adapter as the selected engine, and its \<open>synthesize\<close> is the first
  invoked: the request is treated exactly as one that names \<open>pyttsx3\<close>. A request that
  names \<open>pyttsx3\<close> always selects the pyttsx3 adapter, whatever the availability flags.
\<close>

theorem unavailable_coqui_substituted:
  "(\<not> coqui_available sys \<longrightarrow>
      select_engine sys ''coqui'' = Some Pyttsx3
    \<and> take 1 (invoked (synthesize L sys text path ''coqui'' kw w)) = [Pyttsx3]
    \<and> synthesize L sys text path ''coqui'' kw w = synthesize L sys text path ''pyttsx3'' kw w)
 \<and> select_engine sys ''pyttsx3'' = Some Pyttsx3
 \<and> take 1 (invoked (synthesize L sys text path ''pyttsx3'' kw w)) = [Pyttsx3]"
  by (simp add: synthesize_def select_engine_def Let_def split: option.splits prod.splits)

theorem unavailable_coqui_substituted_witness:
  "\<not> coqui_available pyttsx_only \<and> pyttsx_available pyttsx_only
 \<and> select_engine pyttsx_only ''coqui'' = Some Pyttsx3
 \<and> take 1 (invoked (synthesize libs_working pyttsx_only ''Hello'' ''out.wav'' ''coqui'' plain_kwargs world0))
     = [Pyttsx3]"
proof -
  have a: "\<not> coqui_available pyttsx_only \<and> pyttsx_available pyttsx_only"
    by (simp add: pyttsx_only_def)
  from unavailable_coqui_substituted
    [of pyttsx_only libs_working "''Hello''" "''out.wav''" plain_kwargs world0]
  show ?thesis using a by simp
qed

section \<open>How the style multipliers are combined\<close>

lemma rnd64_four_fifths: "rnd64 (4 / 5) = 3602879701896397 / 4503599627370496"
  by code_simp

lemma somber_quotient_100:
  "rnd64 (3602879701896397 / 6755399441055744) = 4803839602528529 / 9007199254740992"
  by code_simp

lemma somber_product_100:
  "rnd64 (10808639105689191 / 9007199254740992) = 1351079888211149 / 1125899906842624"
  by code_simp

lemma get_style_params_in_range:
  assumes "0 \<le> i" and "i \<le> 100"
  shows "get_style_params style i =
           Inr (dict_get
                 [(''neutral'', []),
                  (''enthusiastic'', [(''speed'', fmul (rnd64 (11 / 10)) (intensity_scale i))]),
                  (''somber'', [(''speed'', rnd64 (rnd64 (4 / 5) / intensity_scale i))]),
                  (''confident'', [(''speed'', fmul 1 (intensity_scale i))]),
                  (''authoritative'', [(''speed'', fmul (rnd64 (9 / 10)) (intensity_scale i))])]
                 style [])"
  using intensity_scale_pos [OF assms]
  by (simp add: get_style_params_def fdiv_def Let_def)

lemma somber_speed_100:
  "rnd64 (rnd64 (4 / 5) / intensity_scale 100) = 4803839602528529 / 9007199254740992"
proof -
  have "3602879701896397 / 4503599627370496 / (3 / 2) = (3602879701896397 / 6755399441055744 :: rat)"
    by simp
  then show ?thesis
    by (simp only: intensity_scale_100 rnd64_four_fifths somber_quotient_100)
qed

lemma somber_product_speed_100:
  "fmul (rnd64 (4 / 5)) (intensity_scale 100) = 1351079888211149 / 1125899906842624"
proof -
  have "3602879701896397 / 4503599627370496 * (3 / 2) = (10808639105689191 / 9007199254740992 :: rat)"
    by simp
  then show ?thesis
    by (simp only: fmul_def intensity_scale_100 rnd64_four_fifths somber_product_100)
qed

text \<open>
  C6, as stated, fails. The pyttsx3 volume is capped at 1.0: from volume 1.0, the style
  \<open>neutral\<close> at intensity 100 sets volume 1.0, not \<open>1.0 * 1.0 * 1.5\<close>. The Coqui
  speed of \<open>somber\<close> is 0.8 divided by the intensity multiplier, not multiplied: at
  intensity 100 it is the double 0.5333333333333333, the product being 1.2000000000000002.
\<close>

theorem multiplicative_combination_counterexample:
  "apply_style world0 ''neutral'' 100 = Inr (world0\<lparr>rate := 300, volume := 1\<rparr>)
 \<and> fmul (fmul (volume world0) 1) (intensity_factor 100) = 3 / 2
 \<and> get_style_params ''somber'' 100 = Inr [(''speed'', 4803839602528529 / 9007199254740992)]
 \<and> fmul (rnd64 (4 / 5)) (intensity_scale 100) = 1351079888211149 / 1125899906842624
 \<and> apply_style world0 ''neutral'' 100
     \<noteq> Inr (world0\<lparr>rate := 300,
                     volume := fmul (fmul (volume world0) 1) (intensity_factor 100)\<rparr>)
 \<and> get_style_params ''somber'' 100
     \<noteq> Inr [(''speed'', fmul (rnd64 (4 / 5)) (intensity_scale 100))]"
proof -
  have r200: "rnd64 200 = 200" using rnd64_of_int [of 200] by simp
  have r300: "rnd64 300 = 300" using rnd64_of_int [of 300] by simp
  have f: "intensity_factor 100 = 3 / 2"
    by (simp add: intensity_factor_eq intensity_scale_100)
  have a: "apply_style world0 ''neutral'' 100 = Inr (world0\<lparr>rate := 300, volume := 1\<rparr>)"
    by (simp add: apply_style_result f dict_get_def pyttsx_style_configs_def world0_def
        py_float_def fmul_def py_int_def r200 r300 rnd64_1 rnd64_three_halves)
  have b: "fmul (fmul (volume world0) 1) (intensity_factor 100) = 3 / 2"
    by (simp add: f fmul_def world0_def rnd64_1 rnd64_three_halves)
  have "(0::int) \<le> 100" and "(100::int) \<le> 100" by simp_all
  from get_style_params_in_range [OF this, of "''somber''"]
  have c: "get_style_params ''somber'' 100 = Inr [(''speed'', 4803839602528529 / 9007199254740992)]"
    by (simp add: dict_get_def somber_speed_100)
  have e: "apply_style world0 ''neutral'' 100
     \<noteq> Inr (world0\<lparr>rate := 300,
                     volume := fmul (fmul (volume world0) 1) (intensity_factor 100)\<rparr>)"
    unfolding a b by (simp add: world0_def)
  have g: "get_style_params ''somber'' 100
     \<noteq> Inr [(''speed'', fmul (rnd64 (4 / 5)) (intensity_scale 100))]"
    unfolding c somber_product_speed_100 by simp
  show ?thesis using a b c somber_product_speed_100 e g by (intro conjI)
qed

text \<open>
  C6, amended. For every style of the adapters' tables and every intensity from 0 to 100:
  the Coqui speed is the style's base speed times the intensity multiplier for
  \<open>enthusiastic\<close> (1.1), \<open>confident\<close> (1.0) and \<open>authoritative\<close> (0.9), the base speed
  0.8 divided by the intensity multiplier for \<open>somber\<close>, and \<open>neutral\<close> sets no speed;
  the new pyttsx3 rate is the engine's current rate times the style's rate multiplier
  times the intensity multiplier, truncated to an integer, and the new volume is the
  current volume times the style's volume multiplier times the intensity multiplier,
  capped at 1.0. The products and the quotient are those of double arithmetic.
\<close>

theorem style_parameters_combination:
  assumes "0 \<le> i" and "i \<le> 100"
  shows "get_style_params ''neutral'' i = Inr []
       \<and> get_style_params ''enthusiastic'' i
           = Inr [(''speed'', fmul (rnd64 (11 / 10)) (intensity_scale i))]
       \<and> get_style_params ''somber'' i
           = Inr [(''speed'', rnd64 (rnd64 (4 / 5) / intensity_scale i))]
       \<and> get_style_params ''confident'' i = Inr [(''speed'', fmul 1 (intensity_scale i))]
       \<and> get_style_params ''authoritative'' i
           = Inr [(''speed'', fmul (rnd64 (9 / 10)) (intensity_scale i))]
       \<and> (\<forall>(style, config) \<in> set pyttsx_style_configs.
             apply_style w style i =
               Inr (w\<lparr>rate := py_int (fmul (fmul (py_float (rate w)) (rate_mult config))
                                          (intensity_factor i)),
                     volume := min 1 (fmul (fmul (volume w) (volume_mult config))
                                          (intensity_factor i))\<rparr>))"
proof -
  have "\<forall>(style, config) \<in> set pyttsx_style_configs.
          dict_get pyttsx_style_configs style \<lparr>rate_mult = 1, volume_mult = 1\<rparr> = config"
    by (simp add: pyttsx_style_configs_def dict_get_def)
  then have "\<forall>(style, config) \<in> set pyttsx_style_configs.
             apply_style w style i =
               Inr (w\<lparr>rate := py_int (fmul (fmul (py_float (rate w)) (rate_mult config))
                                          (intensity_factor i)),
                     volume := min 1 (fmul (fmul (volume w) (volume_mult config))
                                          (intensity_factor i))\<rparr>)"
    by (auto simp: apply_style_result)
  then show ?thesis
    by (simp add: get_style_params_in_range [OF assms] dict_get_def)
qed

theorem style_parameters_combination_witness:
  "(0::int) \<le> 50 \<and> (50::int) \<le> 100
 \<and> get_style_params ''neutral'' 50 = Inr []
 \<and> get_style_params ''somber'' 50 = Inr [(''speed'', rnd64 (rnd64 (4 / 5) / intensity_scale 50))]
 \<and> (''somber'', \<lparr>rate_mult = rnd64 (7 / 10), volume_mult = rnd64 (8 / 10)\<rparr>) \<in> set pyttsx_style_configs
 \<and> apply_style world0 ''somber'' 50 =
      Inr (world0\<lparr>rate := py_int (fmul (fmul (py_float (rate world0)) (rnd64 (7 / 10)))
                                    (intensity_factor 50)),
                  volume := min 1 (fmul (fmul (volume world0) (rnd64 (8 / 10)))
                                    (intensity_factor 50))\<rparr>)"
proof -
  have a: "(0::int) \<le> 50" and b: "(50::int) \<le> 100" by simp_all
  have m: "(''somber'', \<lparr>rate_mult = rnd64 (7 / 10), volume_mult = rnd64 (8 / 10)\<rparr>)
             \<in> set pyttsx_style_configs"
    by (simp add: pyttsx_style_configs_def)
  from style_parameters_combination [OF a b, of world0]
  have c: "get_style_params ''neutral'' 50 = Inr []"
    and d: "get_style_params ''somber'' 50 = Inr [(''speed'', rnd64 (rnd64 (4 / 5) / intensity_scale 50))]"
    and e: "\<forall>(style, config) \<in> set pyttsx_style_configs.
             apply_style world0 style 50 =
               Inr (world0\<lparr>rate := py_int (fmul (fmul (py_float (rate world0)) (rate_mult config))
                                          (intensity_factor 50)),
                     volume := min 1 (fmul (fmul (volume world0) (volume_mult config))
                                          (intensity_factor 50))\<rparr>)"
    by simp_all
  from e m have "apply_style world0 ''somber'' 50 =
      Inr (world0\<lparr>rate := py_int (fmul (fmul (py_float (rate world0)) (rnd64 (7 / 10)))
                                    (intensity_factor 50)),
                  volume := min 1 (fmul (fmul (volume world0) (rnd64 (8 / 10)))
                                    (intensity_factor 50))\<rparr>)"
    by fastforce
  then show ?thesis using a b c d m by simp
qed

section \<open>Properties of the request boundary\<close>

lemma strip_empty_iff: "strip s = [] \<longleftrightarrow> (\<forall>c\<in>set s. isspace c)"
proof
  assume "strip s = []"
  then have all: "\<forall>c\<in>set (dropWhile isspace s). isspace c"
    by (simp add: strip_def dropWhile_eq_Nil_conv)
  have "dropWhile isspace s = []"
  proof (rule ccontr)
    assume ne: "dropWhile isspace s \<noteq> []"
    then have "\<not> isspace (hd (dropWhile isspace s))" by (rule hd_dropWhile)
    moreover have "hd (dropWhile isspace s) \<in> set (dropWhile isspace s)" using ne by simp
    ultimately show False using all by blast
  qed
  then show "\<forall>c\<in>set s. isspace c" by (simp add: dropWhile_eq_Nil_conv)
next
  assume "\<forall>c\<in>set s. isspace c"
  then have d: "dropWhile isspace s = []" by (simp add: dropWhile_eq_Nil_conv)
  show "strip s = []" unfolding strip_def d by simp
qed

lemma intensity_scale_150: "intensity_scale 150 = 2"
proof -
  have "rnd64 2 = 2" using rnd64_of_int [of 2] by simp
  then show ?thesis
    using py_float_exact [of 150] by (simp add: intensity_scale_def fadd_def rnd64_three_halves)
qed

lemma get_style_params_neutral_150: "get_style_params ''neutral'' 150 = Inr []"
  by (simp add: get_style_params_def intensity_scale_150 fdiv_def dict_get_def)

text \<open>
  C7, as stated, fails. The synchronous endpoint does not check the intensity: a request
  with intensity 150 is synthesised. The asynchronous endpoint checks neither the length
  nor the intensity: a text of 1001 characters is accepted and its background task invokes
  an engine.
\<close>

theorem validation_counterexample:
  "response (synthesize_speech libs_working all_ok both_engines ''a.wav''
       (hello_request\<lparr>req_intensity := 150\<rparr>) world0)
     = Inr \<lparr>message = ''Speech synthesized successfully'',
            audio_url = Some ''/static/audio/a.wav'', task_id = None\<rparr>
 \<and> http_invoked (synthesize_speech libs_working all_ok both_engines ''a.wav''
       (hello_request\<lparr>req_intensity := 150\<rparr>) world0) = [Coqui]
 \<and> length (req_text (hello_request\<lparr>req_text := replicate 1001 CHR ''a''\<rparr>)) = 1001
 \<and> queued (synthesize_speech_async ''t1'' 0 (hello_request\<lparr>req_text := replicate 1001 CHR ''a''\<rparr>)
       Map.empty)
     = Some (''t1'', hello_request\<lparr>req_text := replicate 1001 CHR ''a''\<rparr>)
 \<and> task_invoked (process_async_synthesis libs_working all_ok both_engines ''b.wav'' ''t1''
       (hello_request\<lparr>req_text := replicate 1001 CHR ''a''\<rparr>)
       (async_storage (synthesize_speech_async ''t1'' 0
          (hello_request\<lparr>req_text := replicate 1001 CHR ''a''\<rparr>) Map.empty))
       world0) = [Coqui]"
proof -
  have s1: "strip ''Hello'' \<noteq> []"
    by (simp add: strip_empty_iff isspace_def)
  have s2: "strip (replicate 1001 CHR ''a'') \<noteq> []"
    by (simp add: strip_empty_iff isspace_def)
  have c1: "synthesize libs_working both_engines ''Hello'' ''static/audio/a.wav'' ''auto''
              (request_kwargs (hello_request\<lparr>req_intensity := 150\<rparr>)) world0
            = \<lparr>success = True, invoked = [Coqui],
               world_after = world0\<lparr>files := (files world0)(''static/audio/a.wav'' \<mapsto> 49)\<rparr>\<rparr>"
    by (simp add: synthesize_def select_engine_def both_engines_def engine_synthesize_def
        coqui_synthesize_def request_kwargs_def hello_request_def get_style_params_neutral_150
        libs_working_def)
  have c2: "synthesize libs_working both_engines (replicate 1001 CHR ''a'') ''static/audio/b.wav''
              ''auto'' (request_kwargs (hello_request\<lparr>req_text := replicate 1001 CHR ''a''\<rparr>)) world0
            = \<lparr>success = True, invoked = [Coqui],
               world_after = world0\<lparr>files := (files world0)(''static/audio/b.wav'' \<mapsto> 1045)\<rparr>\<rparr>"
    by (simp add: synthesize_def select_engine_def both_engines_def engine_synthesize_def
        coqui_synthesize_def request_kwargs_def hello_request_def get_style_params_neutral_50
        libs_working_def)
  show ?thesis
    using s1 s2 c1 c2
    by (simp add: synthesize_speech_def synthesize_speech_try_def synthesize_speech_async_def
        process_async_synthesis_def hello_request_def all_ok_def Let_def)
qed

text \<open>
  C7, amended. A request whose text is empty or whitespace-only is rejected, before any
  engine's \<open>synthesize\<close> is invoked and with the world unchanged, by the synchronous
  endpoint, by the asynchronous endpoint (no task is stored or queued) and by the CLI. A
  text of more than 1000 characters is rejected in this way by the synchronous endpoint,
  and an intensity outside 0 to 100 by the CLI. Both endpoints answer with an HTTP error
  (their own handler turns the 400 of the validation into a 500); the CLI exits with
  status 1 or 2 unless \<open>--status\<close> or \<open>--list-voices\<close> was given.
\<close>

theorem validation_before_engines:
  "((\<forall>c\<in>set (req_text r). isspace c) \<or> length (req_text r) > 1000 \<longrightarrow>
       synthesize_speech L env sys filename r w
         = \<lparr>response = Inl (HTTPException 500), http_invoked = [], http_world = w\<rparr>)
 \<and> ((\<forall>c\<in>set (req_text r). isspace c) \<longrightarrow>
       synthesize_speech_async tid now r store
         = \<lparr>async_response = Inl (HTTPException 500), async_storage = store, queued = None\<rparr>
     \<and> async_request_storages L env sys filename tid now r store w = [])
 \<and> ((\<forall>t. arg_text a = Some t \<longrightarrow> (\<forall>c\<in>set t. isspace c))
      \<or> \<not> (0 \<le> arg_intensity a \<and> arg_intensity a \<le> 100) \<longrightarrow>
       cli_invoked (main L env coqui_ok pyttsx_ok a w) = []
     \<and> cli_world (main L env coqui_ok pyttsx_ok a w) = w
     \<and> (exit_code (main L env coqui_ok pyttsx_ok a w) \<in> {Exit 1, Exit 2}
          \<or> arg_status a \<or> arg_list_voices a))"
proof (intro conjI impI)
  assume "(\<forall>c\<in>set (req_text r). isspace c) \<or> length (req_text r) > 1000"
  then have "strip (req_text r) = [] \<or> length (req_text r) > 1000"
    by (simp add: strip_empty_iff)
  then show "synthesize_speech L env sys filename r w
         = \<lparr>response = Inl (HTTPException 500), http_invoked = [], http_world = w\<rparr>"
    by (auto simp: synthesize_speech_def synthesize_speech_try_def)
next
  assume "\<forall>c\<in>set (req_text r). isspace c"
  then have e: "strip (req_text r) = []" by (simp add: strip_empty_iff)
  then show "synthesize_speech_async tid now r store
         = \<lparr>async_response = Inl (HTTPException 500), async_storage = store, queued = None\<rparr>"
    by (simp add: synthesize_speech_async_def)
  from e show "async_request_storages L env sys filename tid now r store w = []"
    by (simp add: async_request_storages_def synthesize_speech_async_def)
next
  assume h: "(\<forall>t. arg_text a = Some t \<longrightarrow> (\<forall>c\<in>set t. isspace c))
      \<or> \<not> (0 \<le> arg_intensity a \<and> arg_intensity a \<le> 100)"
  have v: "\<And>t out. strip t = [] \<Longrightarrow> validate_inputs env t out w = (Inr False, w)"
    by (simp add: validate_inputs_def)
  from h have k: "(\<forall>t. arg_text a = Some t \<longrightarrow> strip t = [])
      \<or> \<not> (0 \<le> arg_intensity a \<and> arg_intensity a \<le> 100)"
    by (simp add: strip_empty_iff)
  from k v show "cli_invoked (main L env coqui_ok pyttsx_ok a w) = []"
    by (auto simp: main_def split: option.splits)
  from k v show "cli_world (main L env coqui_ok pyttsx_ok a w) = w"
    by (auto simp: main_def split: option.splits)
  from k v show "exit_code (main L env coqui_ok pyttsx_ok a w) \<in> {Exit 1, Exit 2}
          \<or> arg_status a \<or> arg_list_voices a"
    by (auto simp: main_def split: option.splits)
qed

theorem validation_before_engines_witness:
  "req_text (hello_request\<lparr>req_text := ''  ''\<rparr>) = ''  '' \<and> isspace CHR '' ''
 \<and> synthesize_speech libs_working all_ok both_engines ''a.wav'' (hello_request\<lparr>req_text := ''  ''\<rparr>) world0
     = \<lparr>response = Inl (HTTPException 500), http_invoked = [], http_world = world0\<rparr>
 \<and> queued (synthesize_speech_async ''t1'' 0 (hello_request\<lparr>req_text := ''  ''\<rparr>) Map.empty) = None
 \<and> arg_intensity (hello_args\<lparr>arg_intensity := 101\<rparr>) = 101
 \<and> cli_invoked (main libs_working all_ok True True (hello_args\<lparr>arg_intensity := 101\<rparr>) world0) = []
 \<and> exit_code (main libs_working all_ok True True (hello_args\<lparr>arg_intensity := 101\<rparr>) world0) = Exit 2"
proof -
  have a: "\<forall>c\<in>set (req_text (hello_request\<lparr>req_text := ''  ''\<rparr>)). isspace c"
    by (simp add: isspace_def)
  have a': "isspace CHR '' ''" by (simp add: isspace_def)
  have b: "\<not> (0 \<le> arg_intensity (hello_args\<lparr>arg_intensity := 101\<rparr>)
       \<and> arg_intensity (hello_args\<lparr>arg_intensity := 101\<rparr>) \<le> 100)"
    by simp
  have c: "exit_code (main libs_working all_ok True True (hello_args\<lparr>arg_intensity := 101\<rparr>) world0)
             \<noteq> Exit 1"
    by (simp add: main_def hello_args_def DualTTSSystem_init_def)
  have d: "\<not> arg_status (hello_args\<lparr>arg_intensity := 101\<rparr>)
         \<and> \<not> arg_list_voices (hello_args\<lparr>arg_intensity := 101\<rparr>)"
    by (simp add: hello_args_def)
  from validation_before_engines
    [of "hello_request\<lparr>req_text := ''  ''\<rparr>" libs_working all_ok both_engines "''a.wav''" world0
        "''t1''" 0 Map.empty "hello_args\<lparr>arg_intensity := 101\<rparr>" True True]
  show ?thesis using a a' b c d by auto
qed

section \<open>Properties of the background tasks\<close>

lemma status_history_cases:
  "status_history (async_request_storages L env sys filename tid now r store w) tid
     \<in> {[], [Pending, Processing, Processing, Failed],
         [Pending, Processing, Processing, Processing, Completed],
         [Pending, Processing, Processing, Processing, Failed]}"
  by (simp add: async_request_storages_def synthesize_speech_async_def
      process_async_synthesis_def status_history_def get_task_status_def update_task_def
      task_failed_def task_completed_def List.map_filter_simps Let_def
      split: option.splits)

lemma other_tasks_untouched:
  assumes "s \<in> set (async_request_storages L env sys filename tid now r store w)"
      and "other \<noteq> tid"
  shows "s other = store other"
  using assms
  by (auto simp: async_request_storages_def synthesize_speech_async_def
      process_async_synthesis_def update_task_def Let_def
      split: option.splits if_splits)

text \<open>
  C8. From the acceptance of an asynchronous request to the end of its background task,
  the statuses of its record, read after each write of the system, are without
  repetitions exactly pending, processing, completed or pending, processing, failed, in
  every environment; so their ranks never decrease and every sequence a poller reads is
  without a step backward. These writes touch no other task's record, and the cleanup
  only removes records. (The task id of a new request is freshly generated.)
\<close>

theorem task_status_monotonic:
  "remdups_adj (status_history (async_request_storages L env sys filename tid now r store w) tid)
     \<in> {[], [Pending, Processing, Completed], [Pending, Processing, Failed]}
 \<and> sorted (map status_rank
       (status_history (async_request_storages L env sys filename tid now r store w) tid))
 \<and> (\<forall>s\<in>set (async_request_storages L env sys filename tid now r store w).
       \<forall>other. other \<noteq> tid \<longrightarrow> s other = store other)
 \<and> (\<forall>other. cleanup_tasks clock store other = None
             \<or> cleanup_tasks clock store other = store other)"
proof (intro conjI)
  let ?h = "status_history (async_request_storages L env sys filename tid now r store w) tid"
  have c: "?h \<in> {[], [Pending, Processing, Processing, Failed],
         [Pending, Processing, Processing, Processing, Completed],
         [Pending, Processing, Processing, Processing, Failed]}"
    by (rule status_history_cases)
  from c show "remdups_adj ?h \<in> {[], [Pending, Processing, Completed], [Pending, Processing, Failed]}"
    by auto
  from c show "sorted (map status_rank ?h)"
    by auto
  show "\<forall>s\<in>set (async_request_storages L env sys filename tid now r store w).
       \<forall>other. other \<noteq> tid \<longrightarrow> s other = store other"
    using other_tasks_untouched by blast
  show "\<forall>other. cleanup_tasks clock store other = None
             \<or> cleanup_tasks clock store other = store other"
    by (simp add: cleanup_tasks_def split: option.splits)
qed

theorem task_status_monotonic_witness:
  "''t0'' \<noteq> ''t1''
 \<and> async_request_storages libs_working all_ok both_engines ''b.wav'' ''t1'' 0 hello_request
      Map.empty world0 \<noteq> []
 \<and> hd (async_request_storages libs_working all_ok both_engines ''b.wav'' ''t1'' 0 hello_request
      Map.empty world0) ''t0'' = None
 \<and> sorted (map status_rank (status_history
      (async_request_storages libs_working all_ok both_engines ''b.wav'' ''t1'' 0 hello_request
         Map.empty world0) ''t1''))"
proof -
  have s: "strip ''Hello'' \<noteq> []"
    by (simp add: strip_empty_iff isspace_def)
  have n: "async_request_storages libs_working all_ok both_engines ''b.wav'' ''t1'' 0 hello_request
      Map.empty world0 \<noteq> []"
    using s by (simp add: async_request_storages_def synthesize_speech_async_def hello_request_def)
  then have m: "hd (async_request_storages libs_working all_ok both_engines ''b.wav'' ''t1'' 0
      hello_request Map.empty world0)
      \<in> set (async_request_storages libs_working all_ok both_engines ''b.wav'' ''t1'' 0
      hello_request Map.empty world0)"
    by simp
  have d: "''t0'' \<noteq> ''t1''" by simp
  from task_status_monotonic
    [of libs_working all_ok both_engines "''b.wav''" "''t1''" 0 hello_request Map.empty world0]
  show ?thesis using n m d by auto
qed

section \<open>What a failed request leaves at the destination\<close>

lemma apply_style_files: "apply_style w style i = Inr w' \<Longrightarrow> files w' = files w"
  by (auto simp: apply_style_result)

lemma engine_failure_keeps_destination:
  assumes "\<And>t p ps w'. \<not> fst (tts_to_file L t p ps w')
             \<Longrightarrow> files (snd (tts_to_file L t p ps w')) p = files w' p"
      and "\<And>v p w'. files (snd (select_voice L v w')) p = files w' p"
      and "\<And>t p w'. \<not> fst (save_and_run L t p w')
             \<Longrightarrow> files (snd (save_and_run L t p w')) p = files w' p"
      and "\<not> fst (engine_synthesize L sys e text path kw w)"
  shows "files (snd (engine_synthesize L sys e text path kw w)) path = files w path"
proof (cases e)
  case Coqui
  then show ?thesis
    using assms(1,4)
    by (auto simp: engine_synthesize_def coqui_synthesize_def split: if_splits sum.splits)
next
  case Pyttsx3
  show ?thesis
  proof (cases "pyttsx_available sys")
    case False
    then show ?thesis using Pyttsx3 by (simp add: engine_synthesize_def pyttsx_synthesize_def)
  next
    case True
    obtain vok w1 where v: "(case kw_voice kw of None \<Rightarrow> (True, w)
                              | Some v \<Rightarrow> select_voice L v w) = (vok, w1)"
      by (cases "case kw_voice kw of None \<Rightarrow> (True, w) | Some v \<Rightarrow> select_voice L v w")
    have f1: "files w1 path = files w path"
    proof (cases "kw_voice kw")
      case None
      then show ?thesis using v by simp
    next
      case (Some a)
      then have "w1 = snd (select_voice L a w)" using v by simp
      then show ?thesis using assms(2) by simp
    qed
    obtain w2 where a: "apply_style w1 (kw_style kw) (kw_intensity kw) = Inr w2"
      by (simp add: apply_style_result)
    have f2: "files w2 path = files w1 path"
      using apply_style_files [OF a] by simp
    have r: "engine_synthesize L sys e text path kw w =
               (if \<not> vok then (False, w1) else save_and_run L text path w2)"
      using Pyttsx3 True v a by (simp add: engine_synthesize_def pyttsx_synthesize_def)
    show ?thesis
    proof (cases vok)
      case False
      then show ?thesis using r f1 by simp
    next
      case True
      then have "\<not> fst (save_and_run L text path w2)" using assms(4) r by simp
      from assms(3) [OF this] show ?thesis using r True f1 f2 by simp
    qed
  qed
qed

lemma synthesize_failure_keeps_destination:
  assumes "\<And>t p ps w'. \<not> fst (tts_to_file L t p ps w')
             \<Longrightarrow> files (snd (tts_to_file L t p ps w')) p = files w' p"
      and "\<And>v p w'. files (snd (select_voice L v w')) p = files w' p"
      and "\<And>t p w'. \<not> fst (save_and_run L t p w')
             \<Longrightarrow> files (snd (save_and_run L t p w')) p = files w' p"
      and "\<not> success (synthesize L sys text path engine kw w)"
  shows "files (world_after (synthesize L sys text path engine kw w)) path = files w path"
proof (cases "select_engine sys engine")
  case None
  then show ?thesis by (simp add: synthesize_def)
next
  case (Some e)
  obtain ok w1 where r: "engine_synthesize L sys e text path kw w = (ok, w1)"
    by (cases "engine_synthesize L sys e text path kw w")
  have k: "\<And>sys' e' t' p' kw' w'. \<not> fst (engine_synthesize L sys' e' t' p' kw' w')
             \<Longrightarrow> files (snd (engine_synthesize L sys' e' t' p' kw' w')) p' = files w' p'"
    by (rule engine_failure_keeps_destination [where L = L]) (simp_all add: assms(1,2,3))
  note s = synthesize_selected [OF Some r]
  show ?thesis
  proof (cases "fallback sys")
    case None
    then have "\<not> ok" using assms(4) s by simp
    then have "files w1 path = files w path" using k [of sys e "text" path kw w] r by simp
    then show ?thesis using s None by simp
  next
    case (Some fb)
    show ?thesis
    proof (cases "\<not> ok \<and> e = primary sys")
      case True
      then have f1: "files w1 path = files w path" using k [of sys e "text" path kw w] r by simp
      have "\<not> fst (engine_synthesize L sys fb text path kw w1)"
        using assms(4) s Some True by simp
      then have "files (snd (engine_synthesize L sys fb text path kw w1)) path = files w1 path"
        by (rule k)
      then show ?thesis using s Some True f1 by simp
    next
      case False
      then have "\<not> ok" using assms(4) s Some by auto
      then have "files w1 path = files w path" using k [of sys e "text" path kw w] r by simp
      then show ?thesis using s Some False by auto
    qed
  qed
qed

text \<open>
  C9, as stated, fails at the CLI: \<open>validate_inputs\<close> creates the output file before the
  synthesis, and nothing removes it when every engine has failed. The destination did not
  exist before the request and is an empty file after it.
\<close>

theorem failed_request_counterexample:
  "files world0 ''out.wav'' = None
 \<and> exit_code (main libs_failing all_ok True True hello_args world0) = Exit 1
 \<and> cli_invoked (main libs_failing all_ok True True hello_args world0) = [Coqui, Pyttsx3]
 \<and> files (cli_world (main libs_failing all_ok True True hello_args world0)) ''out.wav'' = Some 0"
proof -
  have s: "strip ''Hello'' \<noteq> []"
    by (simp add: strip_empty_iff isspace_def)
  show ?thesis
    using s
    by (simp add: main_def hello_args_def DualTTSSystem_init_def validate_inputs_def all_ok_def
        world0_def synthesize_def select_engine_def engine_synthesize_def coqui_synthesize_def
        pyttsx_synthesize_def get_style_params_neutral_50 apply_style_result libs_failing_def)
qed

text \<open>
  C9, amended. The system itself writes and removes nothing at the destination during
  synthesis: provided a library call that fails leaves the file at its destination as it
  found it (and voice selection does not touch it), a request that fails overall leaves
  the destination as the coordinator found it, and a failing request at the synchronous
  HTTP endpoint, whose destination is a fresh file name, leaves no file there. At the CLI
  the destination file exists after every request that reached the engines and failed,
  because \<open>validate_inputs\<close> creates it before the synthesis.
\<close>

theorem failed_request_destination:
  assumes "\<And>t p ps w'. \<not> fst (tts_to_file L t p ps w')
             \<Longrightarrow> files (snd (tts_to_file L t p ps w')) p = files w' p"
      and "\<And>v p w'. files (snd (select_voice L v w')) p = files w' p"
      and "\<And>t p w'. \<not> fst (save_and_run L t p w')
             \<Longrightarrow> files (snd (save_and_run L t p w')) p = files w' p"
  shows "(\<not> success (synthesize L sys text path engine kw w) \<longrightarrow>
            files (world_after (synthesize L sys text path engine kw w)) path = files w path)
       \<and> ((\<exists>e. response (synthesize_speech L env sys filename r w) = Inl e)
            \<and> files w (''static/audio/'' @ filename) = None \<longrightarrow>
            files (http_world (synthesize_speech L env sys filename r w))
              (''static/audio/'' @ filename) = None)
       \<and> (arg_output a = Some output
            \<and> cli_invoked (main L env coqui_ok pyttsx_ok a w) \<noteq> []
            \<and> exit_code (main L env coqui_ok pyttsx_ok a w) = Exit 1 \<longrightarrow>
            files (cli_world (main L env coqui_ok pyttsx_ok a w)) output \<noteq> None)"
proof (intro conjI impI)
  have k: "\<And>sys' t' p' e' kw' w'. \<not> success (synthesize L sys' t' p' e' kw' w')
             \<Longrightarrow> files (world_after (synthesize L sys' t' p' e' kw' w')) p' = files w' p'"
    by (rule synthesize_failure_keeps_destination [where L = L]) (simp_all add: assms(1,2,3))
  show "files (world_after (synthesize L sys text path engine kw w)) path = files w path"
    if "\<not> success (synthesize L sys text path engine kw w)"
    using that by (rule k)
  show "files (http_world (synthesize_speech L env sys filename r w))
          (''static/audio/'' @ filename) = None"
    if h: "(\<exists>e. response (synthesize_speech L env sys filename r w) = Inl e)
            \<and> files w (''static/audio/'' @ filename) = None"
  proof -
    let ?res = "synthesize L sys (req_text r) (''static/audio/'' @ filename) (req_engine r)
                  (request_kwargs r) w"
    show ?thesis
    proof (cases "strip (req_text r) = [] \<or> length (req_text r) > 1000 \<or> \<not> mkdir_ok env")
      case True
      then show ?thesis
        using h by (auto simp: synthesize_speech_def synthesize_speech_try_def)
    next
      case False
      then have w: "http_world (synthesize_speech L env sys filename r w) = world_after ?res"
        by (simp add: synthesize_speech_def synthesize_speech_try_def Let_def)
      from False h have "\<not> (success ?res
            \<and> files (world_after ?res) (''static/audio/'' @ filename) \<noteq> None)"
        by (auto simp: synthesize_speech_def synthesize_speech_try_def Let_def split: if_splits)
      then show ?thesis using w k [of sys "req_text r" "''static/audio/'' @ filename"
          "req_engine r" "request_kwargs r" w] h by auto
    qed
  qed
  show "files (cli_world (main L env coqui_ok pyttsx_ok a w)) output \<noteq> None"
    if h: "arg_output a = Some output
            \<and> cli_invoked (main L env coqui_ok pyttsx_ok a w) \<noteq> []
            \<and> exit_code (main L env coqui_ok pyttsx_ok a w) = Exit 1"
  proof -
    from h obtain tts body w1 where
      i: "DualTTSSystem_init coqui_ok pyttsx_ok = Some tts"
      and t: "arg_text a = Some body"
      and v: "validate_inputs env body output w = (Inr True, w1)"
      and m: "main L env coqui_ok pyttsx_ok a w =
               (let res = synthesize L tts body output (arg_engine a)
                            \<lparr>kw_style = arg_style a, kw_intensity = arg_intensity a,
                             kw_voice = arg_voice a, kw_speed = None\<rparr> w1
                in \<lparr>exit_code = (if success res then Exit 0 else Exit 1),
                    cli_invoked = invoked res, cli_world = world_after res\<rparr>)"
      by (auto simp: main_def split: option.splits if_splits sum.splits bool.splits prod.splits)
    let ?res = "synthesize L tts body output (arg_engine a)
                  \<lparr>kw_style = arg_style a, kw_intensity = arg_intensity a,
                   kw_voice = arg_voice a, kw_speed = None\<rparr> w1"
    from v have e: "files w1 output \<noteq> None"
      by (auto simp: validate_inputs_def split: if_splits option.splits)
    from h m have "\<not> success ?res" by (auto simp: Let_def split: if_splits)
    then have "files (world_after ?res) output = files w1 output" by (rule k)
    then show ?thesis using m e by (simp add: Let_def)
  qed
qed

theorem failed_request_destination_witness:
  "files world0 ''static/audio/a.wav'' = None
 \<and> response (synthesize_speech libs_failing all_ok both_engines ''a.wav'' hello_request world0)
     = Inl (HTTPException 500)
 \<and> files (http_world (synthesize_speech libs_failing all_ok both_engines ''a.wav'' hello_request world0))
     ''static/audio/a.wav'' = None
 \<and> arg_output hello_args = Some ''out.wav''
 \<and> cli_invoked (main libs_failing all_ok True True hello_args world0) \<noteq> []
 \<and> exit_code (main libs_failing all_ok True True hello_args world0) = Exit 1
 \<and> files (cli_world (main libs_failing all_ok True True hello_args world0)) ''out.wav'' \<noteq> None"
proof -
  have s: "strip ''Hello'' \<noteq> []"
    by (simp add: strip_empty_iff isspace_def)
  have f: "files world0 ''static/audio/a.wav'' = None" by (simp add: world0_def)
  have r: "response (synthesize_speech libs_failing all_ok both_engines ''a.wav'' hello_request world0)
     = Inl (HTTPException 500)"
    using s
    by (simp add: synthesize_speech_def synthesize_speech_try_def hello_request_def all_ok_def
        Let_def request_kwargs_def both_engines_def synthesize_def select_engine_def
        engine_synthesize_def coqui_synthesize_def pyttsx_synthesize_def
        get_style_params_neutral_50 apply_style_result libs_failing_def)
  have o: "arg_output hello_args = Some ''out.wav''" by (simp add: hello_args_def)
  have m: "cli_invoked (main libs_failing all_ok True True hello_args world0) \<noteq> []
         \<and> exit_code (main libs_failing all_ok True True hello_args world0) = Exit 1"
    using s
    by (simp add: main_def hello_args_def DualTTSSystem_init_def validate_inputs_def all_ok_def
        world0_def synthesize_def select_engine_def engine_synthesize_def coqui_synthesize_def
        pyttsx_synthesize_def get_style_params_neutral_50 apply_style_result libs_failing_def)
  have h1: "\<And>t p ps w'. \<not> fst (tts_to_file libs_failing t p ps w')
             \<Longrightarrow> files (snd (tts_to_file libs_failing t p ps w')) p = files w' p"
    by (simp add: libs_failing_def)
  have h2: "\<And>v p w'. files (snd (select_voice libs_failing v w')) p = files w' p"
    by (simp add: libs_failing_def)
  have h3: "\<And>t p w'. \<not> fst (save_and_run libs_failing t p w')
             \<Longrightarrow> files (snd (save_and_run libs_failing t p w')) p = files w' p"
    by (simp add: libs_failing_def)
  from failed_request_destination [of libs_failing, OF h1 h2 h3,
      of both_engines "''Hello''" "''out.wav''" "''auto''" plain_kwargs world0
         all_ok "''a.wav''" hello_request hello_args "''out.wav''" True True]
  show ?thesis using f r o m by auto
qed

end
